theory Spec2Isabelle
  imports Main "HOL-Library.AList"
begin

section \<open>JavaScript data\<close>

text \<open>
  The three artifacts are JavaScript values: object and array literals holding strings and
  booleans. An object is the list of its properties in the order the literal writes them;
  property names of one object are pairwise different. Strings hold the bytes of the source
  text (UTF-8), so an emoji of a label is four characters.
\<close>

datatype js_value =
    JStr string
  | JBool bool
  | JArr "js_value list"
  | JObj "(string \<times> js_value) list"

text \<open>Property access \<open>v.k\<close>: \<open>None\<close> stands for \<open>undefined\<close>.\<close>

fun get :: "string \<Rightarrow> js_value \<Rightarrow> js_value option" where
  "get k (JObj fs) = map_of fs k"
| "get k v = None"

text \<open>The elements of an array-valued property, and the properties of an object-valued one.\<close>

fun elements :: "js_value option \<Rightarrow> js_value list" where
  "elements (Some (JArr xs)) = xs"
| "elements v = []"

fun properties :: "js_value option \<Rightarrow> (string \<times> js_value) list" where
  "properties (Some (JObj fs)) = fs"
| "properties v = []"


section \<open>The GraphQL code generator configuration (graphql-codegen.ts)\<close>

text \<open>
  The module builds one object literal, \<open>config\<close>, and exports it as its default export.
  The schema path is written as a template literal without any substitution, which is a
  plain string.
\<close>

definition config :: js_value where
  "config = JObj [
     (''schema'', JArr [JStr ''./src/graphql/autogenerated_schema.gql'']),
     (''documents'', JArr [JStr ''src/**/!(*.test).js*'', JStr ''src/**/!(*.test).ts*'']),
     (''config'', JObj [
        (''avoidOptionals'', JObj [(''field'', JBool True)]),
        (''namingConvention'', JObj [(''enumValues'', JStr ''change-case-all#constantCase'')]),
        (''nonOptionalTypename'', JBool True),
        (''omitOperationSuffix'', JBool True),
        (''onlyOperationTypes'', JBool True),
        (''scalars'', JObj [
           (''GraphQLAnyValue'', JStr ''any''),
           (''Long'', JStr ''number''),
           (''LongString'', JStr ''string''),
           (''StringMap'', JStr ''Record<string, string>''),
           (''JSON'', JStr ''any''),
           (''WellKnownFieldMask'', JStr ''any''),
           (''WellKnownTimestamp'', JStr ''any''),
           (''WellKnownDuration'', JStr ''any'')]),
        (''skipTypeNameForRoot'', JBool True),
        (''strictScalars'', JBool True)]),
     (''generates'', JObj [
        (''src/graphql/__generated__/graphql.ts'', JObj [
           (''plugins'', JArr [JStr ''graphql-codegen-typescript-operation-types'',
                               JStr ''typescript-operations''])])])]"

definition graphql_codegen_default_export :: js_value where
  "graphql_codegen_default_export = config"

text \<open>The scalar map \<open>config.config.scalars\<close> and the flag \<open>config.config.strictScalars\<close>.\<close>

definition scalars :: "(string \<times> js_value) list" where
  "scalars = properties (Option.bind (get ''config'' config) (get ''scalars''))"

definition strictScalars :: "js_value option" where
  "strictScalars = Option.bind (get ''config'' config) (get ''strictScalars'')"


section \<open>The documentation sidebar (sidebars.ts)\<close>

text \<open>
  The module builds one object literal, \<open>sidebars\<close>, with the single property
  \<open>docsSidebar\<close>, and exports it as its default export. Five \<open>href\<close> strings are template
  literals that call \<open>apiReferencePrefix()\<close>, a function imported from
  \<open>./docusaurusConfigUtils\<close>, when the module is evaluated; \<open>prefix\<close> is the string that
  call returns. The nine entries of \<open>docsSidebar\<close> are named here one by one, in the order
  of the literal.
\<close>

definition sidebar_index :: js_value where
  "sidebar_index =
    JObj [
      (''type'', JStr ''doc''),
      (''id'', JStr ''index''),
      (''className'', JStr ''sidebar-top-level-category'')]"

definition sidebar_getting_started :: js_value where
  "sidebar_getting_started =
    JObj [
      (''type'', JStr ''category''),
      (''label'', JStr ''Getting Started''),
      (''className'', JStr ''sidebar-top-level-category''),
      (''items'', JArr [
         JObj [
           (''type'', JStr ''doc''),
           (''id'', JStr ''getting-started/intro-quickstart/index''),
           (''label'', JStr ''Quickstart'')],
         JObj [
           (''type'', JStr ''doc''),
           (''id'', JStr ''getting-started/running-notebooks/index'')],
         JObj [
           (''type'', JStr ''doc''),
           (''id'', JStr ''getting-started/databricks-trial/index'')],
         JObj [
           (''type'', JStr ''category''),
           (''label'', JStr ''More Tutorials''),
           (''items'', JArr [
              JObj [
                (''type'', JStr ''doc''),
                (''label'', JStr ''Hyperparameter Tuning Tutorial''),
                (''id'', JStr ''getting-started/quickstart-2/index'')],
              JObj [
                (''type'', JStr ''category''),
                (''label'', JStr ''Model Registry Tutorial''),
                (''items'', JArr [
                   JObj [
                     (''type'', JStr ''autogenerated''),
                     (''dirName'', JStr ''getting-started/registering-first-model'')]])],
              JObj [
                (''type'', JStr ''doc''),
                (''id'', JStr ''getting-started/tracking-server-overview/index'')]])]]),
      (''link'', JObj [(''type'', JStr ''doc''), (''id'', JStr ''getting-started/index'')])]"

definition sidebar_machine_learning :: js_value where
  "sidebar_machine_learning =
    JObj [
      (''type'', JStr ''category''),
      (''label'', JStr (''Machine Learning '' @ [CHR 0xF0, CHR 0x9F, CHR 0xA7, CHR 0xA0])),
      (''className'', JStr ''sidebar-top-level-category''),
      (''collapsed'', JBool False),
      (''items'', JArr [
         JObj [
           (''type'', JStr ''category''),
           (''label'', JStr ''LLM / GenAI''),
           (''items'', JArr [
              JObj [
                (''type'', JStr ''doc''),
                (''label'', JStr ''Overview''),
                (''id'', JStr ''llms/index'')],
              JObj [
                (''type'', JStr ''category''),
                (''label'', JStr ''Integrations''),
                (''items'', JArr [
                   JObj [
                     (''type'', JStr ''category''),
                     (''label'', JStr ''OpenAI''),
                     (''items'', JArr [
                        JObj [
                          (''type'', JStr ''autogenerated''),
                          (''dirName'', JStr ''llms/openai'')]]),
                     (''link'', JObj [(''type'', JStr ''doc''), (''id'', JStr ''llms/openai/index'')])],
                   JObj [
                     (''type'', JStr ''category''),
                     (''label'', JStr ''LangChain''),
                     (''items'', JArr [
                        JObj [
                          (''type'', JStr ''autogenerated''),
                          (''dirName'', JStr ''llms/langchain'')]]),
                     (''link'', JObj [(''type'', JStr ''doc''), (''id'', JStr ''llms/langchain/index'')])],
                   JObj [
                     (''type'', JStr ''doc''),
                     (''id'', JStr ''llms/dspy/index''),
                     (''label'', JStr ''DSPy'')],
                   JObj [
                     (''type'', JStr ''doc''),
                     (''id'', JStr ''llms/llama-index/index''),
                     (''label'', JStr ''LlamaIndex'')],
                   JObj [
                     (''type'', JStr ''category''),
                     (''label'', JStr ''Transformers''),
                     (''items'', JArr [
                        JObj [
                          (''type'', JStr ''autogenerated''),
                          (''dirName'', JStr ''llms/transformers'')]]),
                     (''link'', JObj [(''type'', JStr ''doc''), (''id'', JStr ''llms/transformers/index'')])],
                   JObj [
                     (''type'', JStr ''category''),
                     (''label'', JStr ''Sentence Transformers''),
                     (''items'', JArr [
                        JObj [
                          (''type'', JStr ''autogenerated''),
                          (''dirName'', JStr ''llms/sentence-transformers'')]]),
                     (''link'', JObj [
                        (''type'', JStr ''doc''),
                        (''id'', JStr ''llms/sentence-transformers/index'')])],
                   JObj [
                     (''type'', JStr ''link''),
                     (''href'', JStr ''/tracing/integrations/''),
                     (''label'', JStr ''More'')]])],
              JObj [
                (''type'', JStr ''link''),
                (''label'', JStr ''Tracing (Observability)''),
                (''href'', JStr ''/tracing/'')],
              JObj [
                (''type'', JStr ''category''),
                (''label'', JStr ''Evaluation''),
                (''link'', JObj [(''type'', JStr ''doc''), (''id'', JStr ''llms/llm-evaluate/index'')]),
                (''items'', JArr [
                   JObj [
                     (''type'', JStr ''autogenerated''),
                     (''dirName'', JStr ''llms/llm-evaluate'')]])],
              JObj [
                (''type'', JStr ''category''),
                (''label'', JStr ''ChatModel''),
                (''items'', JArr [
                   JObj [
                     (''type'', JStr ''doc''),
                     (''id'', JStr ''llms/chat-model-intro/index''),
                     (''label'', JStr ''What is ChatModel?'')],
                   JObj [
                     (''type'', JStr ''doc''),
                     (''id'', JStr ''llms/chat-model-guide/index''),
                     (''label'', JStr ''Advanced Guide'')],
                   JObj [
                     (''type'', JStr ''doc''),
                     (''id'', JStr ''llms/custom-pyfunc-for-llms/index''),
                     (''label'', JStr ''More Customization'')]])],
              JObj [
                (''type'', JStr ''category''),
                (''label'', JStr ''RAG''),
                (''items'', JArr [
                   JObj [
                     (''type'', JStr ''doc''),
                     (''id'', JStr ''llms/rag/index''),
                     (''label'', JStr ''What is RAG?'')],
                   JObj [(''type'', JStr ''doc''), (''id'', JStr ''llms/rag/notebooks/index'')]])],
              JObj [
                (''type'', JStr ''doc''),
                (''label'', JStr ''Prompt Engineering''),
                (''id'', JStr ''llms/prompt-engineering/index'')]]),
           (''link'', JObj [(''type'', JStr ''doc''), (''id'', JStr ''llms/index'')])],
         JObj [
           (''type'', JStr ''category''),
           (''label'', JStr ''Deep Learning''),
           (''items'', JArr [
              JObj [(''type'', JStr ''autogenerated''), (''dirName'', JStr ''deep-learning'')]]),
           (''link'', JObj [(''type'', JStr ''doc''), (''id'', JStr ''deep-learning/index'')])],
         JObj [
           (''type'', JStr ''category''),
           (''label'', JStr ''Traditional ML''),
           (''items'', JArr [
              JObj [(''type'', JStr ''autogenerated''), (''dirName'', JStr ''traditional-ml'')]]),
           (''link'', JObj [(''type'', JStr ''doc''), (''id'', JStr ''traditional-ml/index'')])]])]"

definition sidebar_build :: js_value where
  "sidebar_build =
    JObj [
      (''type'', JStr ''category''),
      (''label'', JStr (''Build '' @ [CHR 0xF0, CHR 0x9F, CHR 0x94, CHR 0xA8] @ '' '')),
      (''className'', JStr ''sidebar-top-level-category''),
      (''collapsed'', JBool False),
      (''items'', JArr [
         JObj [
           (''type'', JStr ''category''),
           (''label'', JStr ''MLflow Tracking''),
           (''items'', JArr [
              JObj [(''type'', JStr ''doc''), (''id'', JStr ''tracking/index'')],
              JObj [
                (''type'', JStr ''link''),
                (''href'', JStr ''/getting-started/intro-quickstart/''),
                (''label'', JStr ''Quickstart'')],
              JObj [(''type'', JStr ''doc''), (''id'', JStr ''tracking/autolog/index'')],
              JObj [
                (''type'', JStr ''category''),
                (''label'', JStr ''Tracking Server''),
                (''items'', JArr [
                   JObj [
                     (''type'', JStr ''doc''),
                     (''id'', JStr ''tracking/artifacts-stores/index'')],
                   JObj [
                     (''type'', JStr ''doc''),
                     (''id'', JStr ''tracking/backend-stores/index'')],
                   JObj [
                     (''type'', JStr ''category''),
                     (''label'', JStr ''Tutorials''),
                     (''items'', JArr [
                        JObj [
                          (''type'', JStr ''autogenerated''),
                          (''dirName'', JStr ''tracking/tutorials'')]])]]),
                (''link'', JObj [(''type'', JStr ''doc''), (''id'', JStr ''tracking/server/index'')])],
              JObj [
                (''type'', JStr ''category''),
                (''label'', JStr ''Searching Runs & Experiments''),
                (''items'', JArr [
                   JObj [(''type'', JStr ''doc''), (''id'', JStr ''search-runs/index'')],
                   JObj [(''type'', JStr ''doc''), (''id'', JStr ''search-experiments/index'')]])],
              JObj [(''type'', JStr ''doc''), (''id'', JStr ''system-metrics/index'')]]),
           (''link'', JObj [(''type'', JStr ''doc''), (''id'', JStr ''tracking/index'')])],
         JObj [
           (''type'', JStr ''category''),
           (''label'', JStr ''MLflow Model''),
           (''items'', JArr [
              JObj [(''type'', JStr ''autogenerated''), (''dirName'', JStr ''model'')]])],
         JObj [(''type'', JStr ''doc''), (''id'', JStr ''recipes/index'')]])]"

definition sidebar_evaluate_monitor :: js_value where
  "sidebar_evaluate_monitor =
    JObj [
      (''type'', JStr ''category''),
      (''label'', JStr (''Evaluate & Monitor '' @ [CHR 0xF0, CHR 0x9F, CHR 0x93, CHR 0x8A])),
      (''className'', JStr ''sidebar-top-level-category''),
      (''collapsed'', JBool False),
      (''items'', JArr [
         JObj [
           (''type'', JStr ''doc''),
           (''id'', JStr ''model-evaluation/index''),
           (''label'', JStr ''MLflow Evaluation'')],
         JObj [
           (''type'', JStr ''category''),
           (''label'', JStr ''MLflow Tracing (Observability)''),
           (''items'', JArr [
              JObj [(''type'', JStr ''autogenerated''), (''dirName'', JStr ''tracing'')]]),
           (''link'', JObj [(''type'', JStr ''doc''), (''id'', JStr ''tracing/index'')])],
         JObj [
           (''type'', JStr ''doc''),
           (''id'', JStr ''dataset/index''),
           (''label'', JStr ''MLflow Dataset'')]])]"

definition sidebar_deploy :: js_value where
  "sidebar_deploy =
    JObj [
      (''type'', JStr ''category''),
      (''label'', JStr (''Deploy '' @ [CHR 0xF0, CHR 0x9F, CHR 0x9A, CHR 0x80])),
      (''className'', JStr ''sidebar-top-level-category''),
      (''collapsed'', JBool False),
      (''items'', JArr [
         JObj [(''type'', JStr ''doc''), (''id'', JStr ''model-registry/index'')],
         JObj [
           (''type'', JStr ''category''),
           (''label'', JStr ''MLflow Serving''),
           (''items'', JArr [
              JObj [(''type'', JStr ''autogenerated''), (''dirName'', JStr ''deployment'')]])],
         JObj [
           (''type'', JStr ''category''),
           (''label'', JStr ''MLflow AI Gateway''),
           (''link'', JObj [(''type'', JStr ''doc''), (''id'', JStr ''llms/deployments/index'')]),
           (''items'', JArr [
              JObj [(''type'', JStr ''autogenerated''), (''dirName'', JStr ''llms/deployments'')]])]])]"

definition sidebar_team_collaboration :: js_value where
  "sidebar_team_collaboration =
    JObj [
      (''type'', JStr ''category''),
      (''label'', JStr (''Team Collaboration '' @ [CHR 0xF0, CHR 0x9F, CHR 0x91, CHR 0xA5])),
      (''className'', JStr ''sidebar-top-level-category''),
      (''collapsed'', JBool True),
      (''items'', JArr [
         JObj [
           (''type'', JStr ''link''),
           (''href'', JStr ''/tracking/#tracking-setup''),
           (''label'', JStr ''Self-Hosting'')],
         JObj [
           (''type'', JStr ''link''),
           (''href'', JStr ''/#running-mlflow-anywhere''),
           (''label'', JStr ''Managed Services'')],
         JObj [
           (''type'', JStr ''doc''),
           (''id'', JStr ''auth/index''),
           (''label'', JStr ''Access Control'')],
         JObj [
           (''type'', JStr ''doc''),
           (''id'', JStr ''projects/index''),
           (''label'', JStr ''MLflow Projects'')]])]"

definition sidebar_api_references :: "string \<Rightarrow> js_value" where
  "sidebar_api_references prefix =
    JObj [
      (''type'', JStr ''category''),
      (''label'', JStr ''API References''),
      (''className'', JStr ''sidebar-top-level-category''),
      (''collapsed'', JBool True),
      (''items'', JArr [
         JObj [
           (''type'', JStr ''link''),
           (''label'', JStr ''Python API''),
           (''href'', JStr (prefix @ ''api_reference/python_api/index.html''))],
         JObj [
           (''type'', JStr ''link''),
           (''label'', JStr ''Java API''),
           (''href'', JStr (prefix @ ''api_reference/java_api/index.html''))],
         JObj [
           (''type'', JStr ''link''),
           (''label'', JStr ''R API''),
           (''href'', JStr (prefix @ ''api_reference/R-api.html''))],
         JObj [
           (''type'', JStr ''link''),
           (''label'', JStr ''REST API''),
           (''href'', JStr (prefix @ ''api_reference/rest-api.html''))],
         JObj [
           (''type'', JStr ''link''),
           (''label'', JStr ''CLI''),
           (''href'', JStr (prefix @ ''cli.html''))]])]"

definition sidebar_more :: js_value where
  "sidebar_more =
    JObj [
      (''type'', JStr ''category''),
      (''label'', JStr ''More''),
      (''collapsed'', JBool True),
      (''className'', JStr ''sidebar-top-level-category''),
      (''items'', JArr [
         JObj [
           (''type'', JStr ''link''),
           (''label'', JStr ''Contributing''),
           (''href'', JStr ''https://github.com/mlflow/mlflow/blob/master/CONTRIBUTING.md'')],
         JObj [
           (''type'', JStr ''link''),
           (''label'', JStr ''MLflow Blogs''),
           (''href'', JStr ''https://mlflow.org/blog/index.html'')],
         JObj [(''type'', JStr ''doc''), (''id'', JStr ''plugins/index'')]])]"

definition sidebars :: "string \<Rightarrow> js_value" where
  "sidebars prefix =
    JObj [
      (''docsSidebar'', JArr [
         sidebar_index,
         sidebar_getting_started,
         sidebar_machine_learning,
         sidebar_build,
         sidebar_evaluate_monitor,
         sidebar_deploy,
         sidebar_team_collaboration,
         sidebar_api_references prefix,
         sidebar_more])]"

definition sidebars_default_export :: "string \<Rightarrow> js_value" where
  "sidebars_default_export prefix = sidebars prefix"

text \<open>The exported tree: the list under \<open>docsSidebar\<close>.\<close>

definition docsSidebar :: "string \<Rightarrow> js_value list" where
  "docsSidebar prefix = elements (get ''docsSidebar'' (sidebars_default_export prefix))"


section \<open>Walking the sidebar tree\<close>

text \<open>
  The nodes below a node are the entries of its \<open>items\<close> array, at every depth. The walk is
  in document order and records the nesting depth of each node.
\<close>

function nodes_at :: "nat \<Rightarrow> js_value \<Rightarrow> (nat \<times> js_value) list" where
  "nodes_at d v = (d, v) # concat (map (nodes_at (Suc d)) (elements (get ''items'' v)))"
  by pat_completeness auto
termination
proof (relation "measure (\<lambda>(d, v). size v)")
  show "wf (measure (\<lambda>(d :: nat, v :: js_value). size v))"
    by simp
next
  fix d :: nat and v x :: js_value
  assume x: "x \<in> set (elements (get ''items'' v))"
  have field: "map_of fs k = Some u \<Longrightarrow> size u < size (JObj fs)"
    for fs k and u :: js_value
    by (induction fs) (auto split: if_splits)
  have entry: "y \<in> set ys \<Longrightarrow> size y < size (JArr ys)" for y :: js_value and ys
    by (induction ys) auto
  from x obtain fs xs where v: "v = JObj fs"
    and m: "map_of fs ''items'' = Some (JArr xs)" and xin: "x \<in> set xs"
    by (cases v; cases "get ''items'' v"; simp; cases "the (get ''items'' v)"; simp)
  from entry[OF xin] field[OF m] have "size x < size v"
    unfolding v by simp
  then show "((Suc d, x), (d, v)) \<in> measure (\<lambda>(d, v). size v)"
    by simp
qed

declare nodes_at.simps [simp del]

definition tree_nodes_at :: "string \<Rightarrow> (nat \<times> js_value) list" where
  "tree_nodes_at prefix = concat (map (nodes_at 0) (docsSidebar prefix))"

definition tree_nodes :: "string \<Rightarrow> js_value list" where
  "tree_nodes prefix = map snd (tree_nodes_at prefix)"

text \<open>The \<open>link\<close> objects of the categories that carry one.\<close>

definition link_objects :: "string \<Rightarrow> js_value list" where
  "link_objects prefix = concat (map (\<lambda>n. case get ''link'' n of None \<Rightarrow> [] | Some l \<Rightarrow> [l])
     (tree_nodes prefix))"

text \<open>A string-valued property, and whether an object has one.\<close>

fun string_of :: "js_value option \<Rightarrow> string option" where
  "string_of (Some (JStr s)) = Some s"
| "string_of v = None"

definition has_string :: "string \<Rightarrow> js_value \<Rightarrow> bool" where
  "has_string k n = (string_of (get k n) \<noteq> None)"

definition node_type :: "js_value \<Rightarrow> string option" where
  "node_type n = string_of (get ''type'' n)"

text \<open>
  The document a node refers to by id: a \<open>doc\<close> object names one document. The references
  of the tree are those of its \<open>doc\<close> items and those of the \<open>link\<close> objects of its
  categories.
\<close>

definition doc_ref :: "js_value \<Rightarrow> string list" where
  "doc_ref n = (if node_type n = Some ''doc''
     then (case string_of (get ''id'' n) of None \<Rightarrow> [] | Some i \<Rightarrow> [i]) else [])"

definition item_doc_ids :: "string \<Rightarrow> string list" where
  "item_doc_ids prefix = concat (map doc_ref (tree_nodes prefix))"

definition link_doc_ids :: "string \<Rightarrow> string list" where
  "link_doc_ids prefix = concat (map doc_ref (link_objects prefix))"

definition document_ids :: "string \<Rightarrow> string list" where
  "document_ids prefix = concat (map (\<lambda>n. doc_ref n @
     (case get ''link'' n of None \<Rightarrow> [] | Some l \<Rightarrow> doc_ref l)) (tree_nodes prefix))"

text \<open>
  The name a node shows in an outline: the id of a document, the directory of an
  autogenerated entry, and the label of a category or link.
\<close>

definition node_name :: "js_value \<Rightarrow> string option" where
  "node_name n = (if node_type n = Some ''doc'' then string_of (get ''id'' n)
     else if node_type n = Some ''autogenerated'' then string_of (get ''dirName'' n)
     else string_of (get ''label'' n))"

definition outline :: "string \<Rightarrow> (nat \<times> string option \<times> string option) list" where
  "outline prefix = map (\<lambda>(d, n). (d, node_type n, node_name n)) (tree_nodes_at prefix)"

text \<open>
  The ids that the \<open>link\<close> of a category shares with the \<open>doc\<close> items directly under
  that category.
\<close>

definition self_listed :: "js_value \<Rightarrow> string list" where
  "self_listed n = filter (\<lambda>i. i \<in> set (concat (map doc_ref (elements (get ''items'' n)))))
     (case get ''link'' n of None \<Rightarrow> [] | Some l \<Rightarrow> doc_ref l)"

text \<open>What each kind of node needs.\<close>

definition well_formed :: "js_value \<Rightarrow> bool" where
  "well_formed n =
     (if node_type n = Some ''doc'' then has_string ''id'' n
      else if node_type n = Some ''category'' then
        has_string ''label'' n \<and> elements (get ''items'' n) \<noteq> [] \<and>
        (case get ''link'' n of None \<Rightarrow> True
         | Some l \<Rightarrow> node_type l = Some ''doc'' \<and> has_string ''id'' l)
      else if node_type n = Some ''link'' then has_string ''href'' n \<and> has_string ''label'' n
      else if node_type n = Some ''autogenerated'' then has_string ''dirName'' n
      else True)"


section \<open>The icon components (PlusMinusSquareIcon.tsx, FileIcon.tsx)\<close>

text \<open>
  A JSX expression \<open><tag a="x" {...props}>children</tag>\<close> is a call of React's
  \<open>createElement\<close> on the tag, on the object that holds the written attributes with the
  properties of \<open>props\<close> assigned over them in order, and on the written children. The
  call builds a React element: an object with the tag under \<open>type\<close> and, under \<open>props\<close>,
  the properties of that object except those under the names React reserves (\<open>key\<close>,
  \<open>ref\<close>, \<open>__self\<close>, \<open>__source\<close>), then the written children under \<open>children\<close> (a
  single child as it is, several as an array). The other fields of a React element (its
  key, ref and owner) are bookkeeping, carry no markup and are left out.

  Assigning a property to an object replaces the value where the name exists and adds the
  property at the end where it does not, which is \<open>AList.update\<close>. Names that are array
  indices, which JavaScript lists ahead of the others, stay where they are assigned here;
  every statement below looks properties up by name.
\<close>

definition spread :: "(string \<times> js_value) list \<Rightarrow> (string \<times> js_value) list
    \<Rightarrow> (string \<times> js_value) list" where
  "spread target source = fold (\<lambda>(k, v). AList.update k v) source target"

definition reserved_props :: "string list" where
  "reserved_props = [''key'', ''ref'', ''__self'', ''__source'']"

definition own_props :: "(string \<times> js_value) list \<Rightarrow> (string \<times> js_value) list" where
  "own_props attributes = filter (\<lambda>(k, v). k \<notin> set reserved_props) attributes"

definition jsx :: "string \<Rightarrow> (string \<times> js_value) list \<Rightarrow> js_value list \<Rightarrow> js_value" where
  "jsx tag attributes children =
     JObj [
       (''type'', JStr tag),
       (''props'', JObj (case children of
           [] \<Rightarrow> own_props attributes
         | [child] \<Rightarrow> AList.update ''children'' child (own_props attributes)
         | _ \<Rightarrow> AList.update ''children'' (JArr children) (own_props attributes)))]"

definition SvgPlusMinusSquareIcon :: "(string \<times> js_value) list \<Rightarrow> js_value" where
  "SvgPlusMinusSquareIcon props =
     jsx ''svg''
       (spread [
          (''xmlns'', JStr ''http://www.w3.org/2000/svg''),
          (''width'', JStr ''1em''),
          (''height'', JStr ''1em''),
          (''fill'', JStr ''none''),
          (''viewBox'', JStr ''0 0 16 16'')] props)
       [jsx ''path'' [
          (''fill'', JStr ''currentColor''),
          (''d'', JStr ''M7.25 4.25V6H5.5v1.5h1.75v1.75h1.5V7.5h1.75V6H8.75V4.25zM10.5 10.5h-5V12h5z'')] [],
        jsx ''path'' [
          (''fill'', JStr ''currentColor''),
          (''fillRule'', JStr ''evenodd''),
          (''d'', JStr ''M1.75 1a.75.75 0 0 0-.75.75v12.5c0 .414.336.75.75.75h12.5a.75.75 0 0 0 .75-.75V1.75a.75.75 0 0 0-.75-.75zm.75 12.5v-11h11v11z''),
          (''clipRule'', JStr ''evenodd'')] []]"

definition SvgFileIcon :: "(string \<times> js_value) list \<Rightarrow> js_value" where
  "SvgFileIcon props =
     jsx ''svg''
       (spread [
          (''xmlns'', JStr ''http://www.w3.org/2000/svg''),
          (''width'', JStr ''1em''),
          (''height'', JStr ''1em''),
          (''fill'', JStr ''none''),
          (''viewBox'', JStr ''0 0 16 16'')] props)
       [jsx ''path'' [
          (''fill'', JStr ''currentColor''),
          (''fillRule'', JStr ''evenodd''),
          (''d'', JStr ''M2 1.75A.75.75 0 0 1 2.75 1h6a.75.75 0 0 1 .53.22l4.5 4.5c.141.14.22.331.22.53v9a.75.75 0 0 1-.75.75H2.75a.75.75 0 0 1-.75-.75zm1.5.75v12h9V7H8.75A.75.75 0 0 1 8 6.25V2.5zm6 1.06 1.94 1.94H9.5z''),
          (''clipRule'', JStr ''evenodd'')] []]"

text \<open>The props of an element, and one of them by name.\<close>

definition element_props :: "js_value \<Rightarrow> (string \<times> js_value) list" where
  "element_props e = properties (get ''props'' e)"

definition prop_of :: "string \<Rightarrow> js_value \<Rightarrow> js_value option" where
  "prop_of k e = map_of (element_props e) k"


section \<open>Properties of the code generator configuration\<close>

text \<open>
  C4. The default export of graphql-codegen.ts is a constant: it takes no input, and its
  schema list is exactly the one path \<open>./src/graphql/autogenerated_schema.gql\<close>, its
  documents list exactly the two glob patterns, and its generates map has exactly one
  output target, \<open>src/graphql/__generated__/graphql.ts\<close>, with the two plugins in order.
\<close>

theorem codegen_config_literal:
  "get ''schema'' graphql_codegen_default_export
     = Some (JArr [JStr ''./src/graphql/autogenerated_schema.gql''])
   \<and> get ''documents'' graphql_codegen_default_export
     = Some (JArr [JStr ''src/**/!(*.test).js*'', JStr ''src/**/!(*.test).ts*''])
   \<and> properties (get ''generates'' graphql_codegen_default_export)
     = [(''src/graphql/__generated__/graphql.ts'',
         JObj [(''plugins'', JArr [JStr ''graphql-codegen-typescript-operation-types'',
                                   JStr ''typescript-operations''])])]
   \<and> length (properties (get ''generates'' graphql_codegen_default_export)) = 1"
  by (simp add: graphql_codegen_default_export_def config_def)

text \<open>
  C5. The scalar map of the configuration has exactly eight entries, under eight different
  names, with the listed output types, and \<open>strictScalars\<close> is true (the flag by which the
  generator demands an entry of this map for every custom scalar).
\<close>

theorem codegen_scalars_exact:
  "scalars = [
     (''GraphQLAnyValue'', JStr ''any''),
     (''Long'', JStr ''number''),
     (''LongString'', JStr ''string''),
     (''StringMap'', JStr ''Record<string, string>''),
     (''JSON'', JStr ''any''),
     (''WellKnownFieldMask'', JStr ''any''),
     (''WellKnownTimestamp'', JStr ''any''),
     (''WellKnownDuration'', JStr ''any'')]
   \<and> length scalars = 8
   \<and> distinct (map fst scalars)
   \<and> strictScalars = Some (JBool True)"
  by (simp add: scalars_def strictScalars_def config_def)

section \<open>Properties of the sidebar\<close>

lemmas sidebar_entries = sidebar_index_def sidebar_getting_started_def
  sidebar_machine_learning_def sidebar_build_def sidebar_evaluate_monitor_def
  sidebar_deploy_def sidebar_team_collaboration_def sidebar_api_references_def
  sidebar_more_def

lemma docsSidebar_entries:
  "docsSidebar prefix = [sidebar_index, sidebar_getting_started, sidebar_machine_learning,
     sidebar_build, sidebar_evaluate_monitor, sidebar_deploy, sidebar_team_collaboration,
     sidebar_api_references prefix, sidebar_more]"
  by (simp add: docsSidebar_def sidebars_default_export_def sidebars_def)

lemmas tree_walk = tree_nodes_def tree_nodes_at_def docsSidebar_entries sidebar_entries
  nodes_at.simps

lemma index_is_node: "sidebar_index \<in> set (tree_nodes prefix)"
  by (simp add: tree_nodes_def tree_nodes_at_def docsSidebar_entries nodes_at.simps[of 0 sidebar_index])

text \<open>
  C2. The claim is that no two references to a document by id, taken over the \<open>doc\<close> items
  and the \<open>link\<close> objects of the categories, name the same document. The tree breaks it:
  \<open>llms/index\<close> is the first item of the category LLM / GenAI and also that category's
  \<open>link\<close>, and \<open>tracking/index\<close> is the first item of MLflow Tracking and also its
  \<open>link\<close>.
\<close>

theorem sidebar_doc_ids_not_distinct:
  "\<not> distinct (document_ids ''/'')
   \<and> count_list (document_ids ''/'') ''llms/index'' = 2
   \<and> count_list (document_ids ''/'') ''tracking/index'' = 2"
  by (simp add: document_ids_def tree_walk doc_ref_def node_type_def)

text \<open>
  C2, as the tree has it. No two \<open>doc\<close> items share an id and no two category links share
  an id. An id occurs both as a \<open>doc\<close> item and as a category link exactly for
  \<open>llms/index\<close> and \<open>tracking/index\<close>, and there the \<open>doc\<close> item lies directly under the
  category whose link it repeats.
\<close>

theorem sidebar_doc_ids_distinct_per_role:
  "distinct (item_doc_ids prefix)
   \<and> distinct (link_doc_ids prefix)
   \<and> set (item_doc_ids prefix) \<inter> set (link_doc_ids prefix) = {''llms/index'', ''tracking/index''}
   \<and> concat (map self_listed (tree_nodes prefix)) = [''llms/index'', ''tracking/index'']"
proof -
  have items: "distinct (item_doc_ids prefix)"
    and links: "distinct (link_doc_ids prefix)"
    and both: "set (item_doc_ids prefix) \<inter> set (link_doc_ids prefix)
      = {''llms/index'', ''tracking/index''}"
    by (simp_all add: item_doc_ids_def link_doc_ids_def link_objects_def tree_walk doc_ref_def
        node_type_def)
  have own: "concat (map self_listed (tree_nodes prefix)) = [''llms/index'', ''tracking/index'']"
    by (simp add: self_listed_def tree_walk doc_ref_def node_type_def)
  from items links both own show ?thesis
    by simp
qed

text \<open>
  C3. The claim is that the exported value is one fixed constant, no field depending on
  anything computed when the module is evaluated. Two results of \<open>apiReferencePrefix()\<close>
  give two different exported values.
\<close>

theorem sidebar_depends_on_prefix:
  "sidebars_default_export ''/'' \<noteq> sidebars_default_export ''/docs/latest/''"
  by (simp add: sidebars_default_export_def sidebars_def sidebar_api_references_def)

text \<open>
  C3, as the module has it. The exported list has nine entries. The seven before the
  category API References and the one after it are the same whatever
  \<open>apiReferencePrefix()\<close> returns. In API References every field is a literal but the
  \<open>href\<close> of its five links, each of which is the returned prefix followed by a literal path.
\<close>

theorem sidebar_static_but_api_hrefs:
  "length (docsSidebar prefix) = 9
   \<and> take 7 (docsSidebar prefix) = take 7 (docsSidebar prefix')
   \<and> drop 8 (docsSidebar prefix) = drop 8 (docsSidebar prefix')
   \<and> docsSidebar prefix ! 7 =
       JObj [
         (''type'', JStr ''category''),
         (''label'', JStr ''API References''),
         (''className'', JStr ''sidebar-top-level-category''),
         (''collapsed'', JBool True),
         (''items'', JArr (map
            (\<lambda>(label, path). JObj [
               (''type'', JStr ''link''),
               (''label'', JStr label),
               (''href'', JStr (prefix @ path))])
            [(''Python API'', ''api_reference/python_api/index.html''),
             (''Java API'', ''api_reference/java_api/index.html''),
             (''R API'', ''api_reference/R-api.html''),
             (''REST API'', ''api_reference/rest-api.html''),
             (''CLI'', ''cli.html'')]))]"
  by (simp add: docsSidebar_entries sidebar_api_references_def)

text \<open>
  C6. The order of every level is the order of the literal. The nine top-level entries are
  the index document and then the eight categories, in the order listed; and the walk of
  the whole tree in document order, with the depth of each node, lists every level in the
  order in which it is written.
\<close>

theorem sidebar_order:
  "map (\<lambda>n. (node_type n, node_name n)) (docsSidebar prefix) =
    [(Some ''doc'', Some ''index''),
     (Some ''category'', Some ''Getting Started''),
     (Some ''category'', Some (''Machine Learning '' @ [CHR 0xF0, CHR 0x9F, CHR 0xA7, CHR 0xA0])),
     (Some ''category'', Some (''Build '' @ [CHR 0xF0, CHR 0x9F, CHR 0x94, CHR 0xA8] @ '' '')),
     (Some ''category'', Some (''Evaluate & Monitor '' @ [CHR 0xF0, CHR 0x9F, CHR 0x93, CHR 0x8A])),
     (Some ''category'', Some (''Deploy '' @ [CHR 0xF0, CHR 0x9F, CHR 0x9A, CHR 0x80])),
     (Some ''category'', Some (''Team Collaboration '' @ [CHR 0xF0, CHR 0x9F, CHR 0x91, CHR 0xA5])),
     (Some ''category'', Some ''API References''),
     (Some ''category'', Some ''More'')]
   \<and> outline prefix =
    [(0, Some ''doc'', Some ''index''),
     (0, Some ''category'', Some ''Getting Started''),
     (1, Some ''doc'', Some ''getting-started/intro-quickstart/index''),
     (1, Some ''doc'', Some ''getting-started/running-notebooks/index''),
     (1, Some ''doc'', Some ''getting-started/databricks-trial/index''),
     (1, Some ''category'', Some ''More Tutorials''),
     (2, Some ''doc'', Some ''getting-started/quickstart-2/index''),
     (2, Some ''category'', Some ''Model Registry Tutorial''),
     (3, Some ''autogenerated'', Some ''getting-started/registering-first-model''),
     (2, Some ''doc'', Some ''getting-started/tracking-server-overview/index''),
     (0, Some ''category'', Some (''Machine Learning '' @ [CHR 0xF0, CHR 0x9F, CHR 0xA7, CHR 0xA0])),
     (1, Some ''category'', Some ''LLM / GenAI''),
     (2, Some ''doc'', Some ''llms/index''),
     (2, Some ''category'', Some ''Integrations''),
     (3, Some ''category'', Some ''OpenAI''),
     (4, Some ''autogenerated'', Some ''llms/openai''),
     (3, Some ''category'', Some ''LangChain''),
     (4, Some ''autogenerated'', Some ''llms/langchain''),
     (3, Some ''doc'', Some ''llms/dspy/index''),
     (3, Some ''doc'', Some ''llms/llama-index/index''),
     (3, Some ''category'', Some ''Transformers''),
     (4, Some ''autogenerated'', Some ''llms/transformers''),
     (3, Some ''category'', Some ''Sentence Transformers''),
     (4, Some ''autogenerated'', Some ''llms/sentence-transformers''),
     (3, Some ''link'', Some ''More''),
     (2, Some ''link'', Some ''Tracing (Observability)''),
     (2, Some ''category'', Some ''Evaluation''),
     (3, Some ''autogenerated'', Some ''llms/llm-evaluate''),
     (2, Some ''category'', Some ''ChatModel''),
     (3, Some ''doc'', Some ''llms/chat-model-intro/index''),
     (3, Some ''doc'', Some ''llms/chat-model-guide/index''),
     (3, Some ''doc'', Some ''llms/custom-pyfunc-for-llms/index''),
     (2, Some ''category'', Some ''RAG''),
     (3, Some ''doc'', Some ''llms/rag/index''),
     (3, Some ''doc'', Some ''llms/rag/notebooks/index''),
     (2, Some ''doc'', Some ''llms/prompt-engineering/index''),
     (1, Some ''category'', Some ''Deep Learning''),
     (2, Some ''autogenerated'', Some ''deep-learning''),
     (1, Some ''category'', Some ''Traditional ML''),
     (2, Some ''autogenerated'', Some ''traditional-ml''),
     (0, Some ''category'', Some (''Build '' @ [CHR 0xF0, CHR 0x9F, CHR 0x94, CHR 0xA8] @ '' '')),
     (1, Some ''category'', Some ''MLflow Tracking''),
     (2, Some ''doc'', Some ''tracking/index''),
     (2, Some ''link'', Some ''Quickstart''),
     (2, Some ''doc'', Some ''tracking/autolog/index''),
     (2, Some ''category'', Some ''Tracking Server''),
     (3, Some ''doc'', Some ''tracking/artifacts-stores/index''),
     (3, Some ''doc'', Some ''tracking/backend-stores/index''),
     (3, Some ''category'', Some ''Tutorials''),
     (4, Some ''autogenerated'', Some ''tracking/tutorials''),
     (2, Some ''category'', Some ''Searching Runs & Experiments''),
     (3, Some ''doc'', Some ''search-runs/index''),
     (3, Some ''doc'', Some ''search-experiments/index''),
     (2, Some ''doc'', Some ''system-metrics/index''),
     (1, Some ''category'', Some ''MLflow Model''),
     (2, Some ''autogenerated'', Some ''model''),
     (1, Some ''doc'', Some ''recipes/index''),
     (0, Some ''category'', Some (''Evaluate & Monitor '' @ [CHR 0xF0, CHR 0x9F, CHR 0x93, CHR 0x8A])),
     (1, Some ''doc'', Some ''model-evaluation/index''),
     (1, Some ''category'', Some ''MLflow Tracing (Observability)''),
     (2, Some ''autogenerated'', Some ''tracing''),
     (1, Some ''doc'', Some ''dataset/index''),
     (0, Some ''category'', Some (''Deploy '' @ [CHR 0xF0, CHR 0x9F, CHR 0x9A, CHR 0x80])),
     (1, Some ''doc'', Some ''model-registry/index''),
     (1, Some ''category'', Some ''MLflow Serving''),
     (2, Some ''autogenerated'', Some ''deployment''),
     (1, Some ''category'', Some ''MLflow AI Gateway''),
     (2, Some ''autogenerated'', Some ''llms/deployments''),
     (0, Some ''category'', Some (''Team Collaboration '' @ [CHR 0xF0, CHR 0x9F, CHR 0x91, CHR 0xA5])),
     (1, Some ''link'', Some ''Self-Hosting''),
     (1, Some ''link'', Some ''Managed Services''),
     (1, Some ''doc'', Some ''auth/index''),
     (1, Some ''doc'', Some ''projects/index''),
     (0, Some ''category'', Some ''API References''),
     (1, Some ''link'', Some ''Python API''),
     (1, Some ''link'', Some ''Java API''),
     (1, Some ''link'', Some ''R API''),
     (1, Some ''link'', Some ''REST API''),
     (1, Some ''link'', Some ''CLI''),
     (0, Some ''category'', Some ''More''),
     (1, Some ''link'', Some ''Contributing''),
     (1, Some ''link'', Some ''MLflow Blogs''),
     (1, Some ''doc'', Some ''plugins/index'')]"
  by (simp add: outline_def tree_walk node_type_def node_name_def)

text \<open>
  C7. Every node of the tree, at every depth, has a \<open>type\<close> that is one of doc, category,
  link and autogenerated; so has every \<open>link\<close> object of a category.
\<close>

theorem sidebar_node_kinds:
  "\<forall>n \<in> set (tree_nodes prefix @ link_objects prefix).
     node_type n \<in> {Some ''doc'', Some ''category'', Some ''link'', Some ''autogenerated''}"
proof -
  have "list_all (\<lambda>n. node_type n
      \<in> {Some ''doc'', Some ''category'', Some ''link'', Some ''autogenerated''})
    (tree_nodes prefix @ link_objects prefix)"
    by (simp add: link_objects_def tree_walk node_type_def)
  then show ?thesis
    by (simp only: list_all_iff)
qed

theorem sidebar_node_kinds_witness:
  "sidebar_index \<in> set (tree_nodes ''/'' @ link_objects ''/'')
   \<and> node_type sidebar_index
     \<in> {Some ''doc'', Some ''category'', Some ''link'', Some ''autogenerated''}"
proof -
  have mem: "sidebar_index \<in> set (tree_nodes ''/'' @ link_objects ''/'')"
    using index_is_node[of "''/''"] by simp
  with sidebar_node_kinds[of "''/''"] show ?thesis
    by blast
qed

text \<open>
  C10. Every node of the tree is well-formed for its kind: a doc has an id, a category has
  a label, at least one item and, where it has a link, a link that is a doc with an id; a
  link has an href and a label; an autogenerated entry has a dirName.
\<close>

theorem sidebar_nodes_well_formed:
  "\<forall>n \<in> set (tree_nodes prefix). well_formed n"
proof -
  have "list_all well_formed (tree_nodes prefix)"
    by (simp add: tree_walk well_formed_def node_type_def has_string_def)
  then show ?thesis
    by (simp only: list_all_iff)
qed

theorem sidebar_nodes_well_formed_witness:
  "sidebar_index \<in> set (tree_nodes ''/'') \<and> well_formed sidebar_index"
  using sidebar_nodes_well_formed[of "''/''"] index_is_node[of "''/''"] by blast

section \<open>Properties of the icon components\<close>



lemma jsx_children:
  "map_of (element_props (jsx tag attributes (c # cs))) ''children''
     = Some (case cs of [] \<Rightarrow> c | _ \<Rightarrow> JArr (c # cs))"
  by (simp add: element_props_def jsx_def AList.update_conv' split: list.splits)





text \<open>
  C8. The path data is fixed. Whatever the caller supplies, also a \<open>children\<close> property of
  its own, the children of the svg are those emitted for empty props: the two paths of
  SvgPlusMinusSquareIcon and the one path of SvgFileIcon, with the \<open>d\<close> strings written in
  the components.
\<close>

theorem icon_paths_fixed:
  "prop_of ''children'' (SvgPlusMinusSquareIcon props)
     = prop_of ''children'' (SvgPlusMinusSquareIcon [])
   \<and> map (prop_of ''d'') (elements (prop_of ''children'' (SvgPlusMinusSquareIcon props)))
     = [Some (JStr ''M7.25 4.25V6H5.5v1.5h1.75v1.75h1.5V7.5h1.75V6H8.75V4.25zM10.5 10.5h-5V12h5z''),
        Some (JStr ''M1.75 1a.75.75 0 0 0-.75.75v12.5c0 .414.336.75.75.75h12.5a.75.75 0 0 0 .75-.75V1.75a.75.75 0 0 0-.75-.75zm.75 12.5v-11h11v11z'')]
   \<and> prop_of ''children'' (SvgFileIcon props) = prop_of ''children'' (SvgFileIcon [])
   \<and> Option.bind (prop_of ''children'' (SvgFileIcon props)) (prop_of ''d'')
     = Some (JStr ''M2 1.75A.75.75 0 0 1 2.75 1h6a.75.75 0 0 1 .53.22l4.5 4.5c.141.14.22.331.22.53v9a.75.75 0 0 1-.75.75H2.75a.75.75 0 0 1-.75-.75zm1.5.75v12h9V7H8.75A.75.75 0 0 1 8 6.25V2.5zm6 1.06 1.94 1.94H9.5z'')"
  by (simp add: prop_of_def SvgPlusMinusSquareIcon_def SvgFileIcon_def jsx_children)
    (simp add: jsx_def element_props_def own_props_def reserved_props_def)

end
